theory Spec2Isabelle
  imports Main "HOL-Library.Word"
begin

section \<open>Data model\<close>

text \<open>
  The package locates a configuration file, reads it, unmarshals it into a caller-owned
  object and validates it. It exists in two variants: \<^verbatim>\<open>gonfig.go\<close> with the exported
  \<^verbatim>\<open>FindConfig\<close>, \<^verbatim>\<open>ReadFoundConfig\<close>, \<^verbatim>\<open>ReadConfig\<close> and a validator returning one error,
  and a second file with the unexported \<^verbatim>\<open>findConfig\<close> and a \<^verbatim>\<open>ReadConfig\<close> whose validator
  returns a slice of errors.
\<close>

type_synonym path = string
type_synonym bytes = "8 word list"

text \<open>
  A Go \<^verbatim>\<open>error\<close> value, reduced to what the package observes of it: its message and the
  error it wraps. \<^verbatim>\<open>errors.New\<close> builds an \<open>ErrorString\<close>, \<^verbatim>\<open>fmt.Errorf\<close> with a \<^verbatim>\<open>%w\<close> verb a
  \<open>WrapError\<close>. Errors that come from the operating system or from the caller's functions
  are arbitrary values of this type. A nil error is \<open>None\<close> of \<open>error option\<close>.
\<close>

datatype error = ErrorString string | WrapError string error

fun Error :: "error \<Rightarrow> string" where
  "Error (ErrorString s) = s"
| "Error (WrapError msg err) = msg"

fun Unwrap :: "error \<Rightarrow> error option" where
  "Unwrap (ErrorString s) = None"
| "Unwrap (WrapError msg err) = Some err"

definition errors_New :: "string \<Rightarrow> error" where
  "errors_New text = ErrorString text"

text \<open>
  \<^verbatim>\<open>fmt.Errorf(prefix + "%s: %w", p, err)\<close>, the only shape of format the package uses: the
  message is the prefix, the path, a colon and the message of the wrapped error.
\<close>

definition fmt_Errorf :: "string \<Rightarrow> path \<Rightarrow> error \<Rightarrow> error" where
  "fmt_Errorf prefix p err = WrapError (prefix @ p @ '': '' @ Error err) err"

text \<open>
  The calls the package makes to its environment, in the order it makes them: the two
  filesystem primitives and the two functions supplied by the caller.
\<close>

datatype event = EvStat path | EvReadFile path | EvUnmarshal | EvValidate

text \<open>
  The environment of one call. \<open>stat_of\<close> is the error \<^verbatim>\<open>os.Stat\<close> returns for a path (the
  \<^verbatim>\<open>FileInfo\<close> is discarded by every caller), \<open>file_of\<close> is what \<^verbatim>\<open>os.ReadFile\<close> returns,
  and \<open>trace\<close> lists the calls made so far, oldest first. The two are independent, so a file
  may stat and still fail to read.
\<close>

record world =
  stat_of :: "path \<Rightarrow> error option"
  file_of :: "path \<Rightarrow> error + bytes"
  trace :: "event list"

definition record_event :: "event \<Rightarrow> world \<Rightarrow> world" where
  "record_event ev w = w\<lparr>trace := trace w @ [ev]\<rparr>"

definition os_Stat :: "path \<Rightarrow> world \<Rightarrow> error option \<times> world" where
  "os_Stat name w = (stat_of w name, record_event (EvStat name) w)"

definition os_ReadFile :: "path \<Rightarrow> world \<Rightarrow> (error + bytes) \<times> world" where
  "os_ReadFile name w = (file_of w name, record_event (EvReadFile name) w)"

text \<open>
  \<^verbatim>\<open>UnmarshalFunc[*T]\<close>: receives the bytes and the pointer to the target, so it returns the
  error together with the target as it leaves it (also when it fails).
  \<^verbatim>\<open>ValidateFunc[T]\<close> and \<^verbatim>\<open>Validator[T].Validate\<close> receive a copy of the target.
\<close>

type_synonym 'c UnmarshalFunc = "bytes \<Rightarrow> 'c \<Rightarrow> error option \<times> 'c"
type_synonym 'c ValidateFunc = "'c \<Rightarrow> error option"
type_synonym 'c Validator = "'c \<Rightarrow> error list"

definition call_unmarshal ::
  "'c UnmarshalFunc \<Rightarrow> bytes \<Rightarrow> 'c \<Rightarrow> world \<Rightarrow> (error option \<times> 'c) \<times> world" where
  "call_unmarshal unmarshal content c w = (unmarshal content c, record_event EvUnmarshal w)"

definition call_validate :: "('c \<Rightarrow> 'r) \<Rightarrow> 'c \<Rightarrow> world \<Rightarrow> 'r \<times> world" where
  "call_validate validate c w = (validate c, record_event EvValidate w)"

section \<open>Path resolution\<close>

text \<open>
  The \<^verbatim>\<open>for _, p := range paths\<close> loop of \<^verbatim>\<open>FindConfig\<close>: the second argument is the
  variable \<^verbatim>\<open>path\<close>, overwritten at every candidate that stats.
\<close>

fun scan :: "path list \<Rightarrow> path \<Rightarrow> world \<Rightarrow> path \<times> world" where
  "scan [] path w = (path, w)"
| "scan (p # ps) path w =
     (case os_Stat p w of
        (Some err, w') \<Rightarrow> scan ps path w'
      | (None, w') \<Rightarrow> scan ps p w')"

definition FindConfig :: "path \<Rightarrow> path list \<Rightarrow> world \<Rightarrow> (path \<times> error option) \<times> world" where
  "FindConfig path paths w =
     (if path = '''' then
        (case scan paths path w of
           (path', w') \<Rightarrow>
             if path' = '''' then
               (('''', Some (errors_New ''could not locate configuration file'')), w')
             else ((path', None), w'))
      else
        (case os_Stat path w of
           (Some err, w') \<Rightarrow>
             (('''', Some (fmt_Errorf ''could not stat configuration file '' path err)), w')
         | (None, w') \<Rightarrow> ((path, None), w')))"

text \<open>The unexported resolver of the second variant; its body is the same text.\<close>

definition findConfig :: "path \<Rightarrow> path list \<Rightarrow> world \<Rightarrow> (path \<times> error option) \<times> world" where
  "findConfig path paths w =
     (if path = '''' then
        (case scan paths path w of
           (path', w') \<Rightarrow>
             if path' = '''' then
               (('''', Some (errors_New ''could not locate configuration file'')), w')
             else ((path', None), w'))
      else
        (case os_Stat path w of
           (Some err, w') \<Rightarrow>
             (('''', Some (fmt_Errorf ''could not stat configuration file '' path err)), w')
         | (None, w') \<Rightarrow> ((path, None), w')))"

section \<open>Loading\<close>

text \<open>
  The results carry the error, the target object as the call leaves it, and the
  environment after the call.
\<close>

definition ReadFoundConfig ::
  "path \<Rightarrow> 'c \<Rightarrow> 'c UnmarshalFunc \<Rightarrow> 'c ValidateFunc \<Rightarrow> world \<Rightarrow> error option \<times> 'c \<times> world" where
  "ReadFoundConfig path c unmarshal validate w =
     (case os_ReadFile path w of
        (Inl err, w1) \<Rightarrow>
          (Some (fmt_Errorf ''unable to read configuration file '' path err), c, w1)
      | (Inr content, w1) \<Rightarrow>
          (case call_unmarshal unmarshal content c w1 of
             ((Some err, c'), w2) \<Rightarrow>
               (Some (fmt_Errorf ''unable to unmarshal configuration file '' path err), c', w2)
           | ((None, c'), w2) \<Rightarrow>
               (case call_validate validate c' w2 of
                  (r, w3) \<Rightarrow> (r, c', w3))))"

definition ReadConfig ::
  "path \<Rightarrow> path list \<Rightarrow> 'c \<Rightarrow> 'c UnmarshalFunc \<Rightarrow> 'c ValidateFunc \<Rightarrow> world
     \<Rightarrow> (path \<times> error option) \<times> 'c \<times> world" where
  "ReadConfig path searchPaths c unmarshal validate w =
     (case FindConfig path searchPaths w of
        ((path', Some err), w1) \<Rightarrow> (('''', Some err), c, w1)
      | ((path', None), w1) \<Rightarrow>
          (case ReadFoundConfig path' c unmarshal validate w1 of
             (r, c', w2) \<Rightarrow> ((path', r), c', w2)))"

text \<open>\<^verbatim>\<open>ReadConfig\<close> of the variant whose validator returns \<^verbatim>\<open>[]error\<close>.\<close>

definition ReadConfig_multi ::
  "path \<Rightarrow> path list \<Rightarrow> 'c \<Rightarrow> 'c UnmarshalFunc \<Rightarrow> 'c Validator \<Rightarrow> world
     \<Rightarrow> (path \<times> error list) \<times> 'c \<times> world" where
  "ReadConfig_multi path paths c unmarshal validator w =
     (case findConfig path paths w of
        ((path', Some err), w1) \<Rightarrow> (('''', [err]), c, w1)
      | ((path', None), w1) \<Rightarrow>
          (case os_ReadFile path' w1 of
             (Inl err, w2) \<Rightarrow>
               (('''', [fmt_Errorf ''unable to read configuration file '' path' err]), c, w2)
           | (Inr content, w2) \<Rightarrow>
               (case call_unmarshal unmarshal content c w2 of
                  ((Some err, c'), w3) \<Rightarrow>
                    (('''', [fmt_Errorf ''unable to unmarshal configuration file '' path' err]),
                     c', w3)
                | ((None, c'), w3) \<Rightarrow>
                    (case call_validate validator c' w3 of
                       (errs, w4) \<Rightarrow> ((path', errs), c', w4)))))"

section \<open>A concrete environment\<close>

text \<open>
  A filesystem given by the list of paths that stat, each with what reading it returns;
  every other path fails with \<open>ENOENT\<close> for both primitives. The target type of the
  examples is a number, the unmarshal function stores the length of the file in it and
  rejects an empty file, and the validators reject a length of three or more.
\<close>

definition ENOENT :: error where
  "ENOENT = ErrorString ''no such file or directory''"

definition EACCES :: error where
  "EACCES = ErrorString ''permission denied''"

definition fs_of :: "(path \<times> (error + bytes)) list \<Rightarrow> world" where
  "fs_of files =
     \<lparr>stat_of = (\<lambda>p. case map_of files p of None \<Rightarrow> Some ENOENT | Some r \<Rightarrow> None),
      file_of = (\<lambda>p. case map_of files p of None \<Rightarrow> Inl ENOENT | Some r \<Rightarrow> r),
      trace = []\<rparr>"

definition demo_fs :: world where
  "demo_fs = fs_of [(''/a.yml'', Inr [1]), (''/b.yml'', Inr [1, 2]), (''/etc/app.yml'', Inr [1, 2, 3]),
     (''/etc/empty.yml'', Inr []), (''/etc/secret.yml'', Inl EACCES)]"

definition demo_unmarshal :: "nat UnmarshalFunc" where
  "demo_unmarshal content c =
     (if content = [] then (Some (ErrorString ''unexpected end of input''), c)
      else (None, length content))"

definition demo_validate :: "nat ValidateFunc" where
  "demo_validate c = (if c < 3 then None else Some (ErrorString ''too long''))"

definition demo_validator :: "nat Validator" where
  "demo_validator c =
     (if c < 3 then [] else [ErrorString ''too long'', ErrorString ''not short''])"

section \<open>The scan\<close>

lemma stat_of_record_event [simp]: "stat_of (record_event ev w) = stat_of w"
  by (simp add: record_event_def)

lemma file_of_record_event [simp]: "file_of (record_event ev w) = file_of w"
  by (simp add: record_event_def)

lemma trace_record_event [simp]: "trace (record_event ev w) = trace w @ [ev]"
  by (simp add: record_event_def)

lemma scan_world: "snd (scan ps path w) = w\<lparr>trace := trace w @ map EvStat ps\<rparr>"
  by (induction ps arbitrary: path w)
     (auto simp: os_Stat_def record_event_def split: option.splits)

lemma scan_path:
  "fst (scan ps path w) =
     (case filter (\<lambda>p. stat_of w p = None) ps of [] \<Rightarrow> path | q # qs \<Rightarrow> last (q # qs))"
proof (induction ps arbitrary: path w)
  case Nil
  show ?case by simp
next
  case (Cons p ps)
  show ?case
    by (cases "stat_of w p") (auto simp: os_Stat_def Cons.IH split: list.splits)
qed

section \<open>What the resolver computes\<close>

lemma findConfig_eq: "findConfig path paths w = FindConfig path paths w"
  by (simp add: findConfig_def FindConfig_def)

lemma FindConfig_world:
  "snd (FindConfig path paths w) =
     w\<lparr>trace := trace w @ (if path = '''' then map EvStat paths else [EvStat path])\<rparr>"
proof (cases "path = ''''")
  case True
  have "snd (FindConfig '''' paths w) = snd (scan paths '''' w)"
    by (simp add: FindConfig_def split: prod.splits)
  with True show ?thesis by (simp add: scan_world)
next
  case False
  then show ?thesis
    by (simp add: FindConfig_def os_Stat_def record_event_def split: option.splits)
qed

lemma FindConfig_result:
  "fst (FindConfig path paths w) =
     (if path = '''' then
        (case filter (\<lambda>p. stat_of w p = None) paths of
           [] \<Rightarrow> ('''', Some (errors_New ''could not locate configuration file''))
         | q # qs \<Rightarrow>
             if last (q # qs) = '''' then
               ('''', Some (errors_New ''could not locate configuration file''))
             else (last (q # qs), None))
      else
        (case stat_of w path of
           Some err \<Rightarrow> ('''', Some (fmt_Errorf ''could not stat configuration file '' path err))
         | None \<Rightarrow> (path, None)))"
proof (cases "path = ''''")
  case True
  obtain r w' where sc: "scan paths '''' w = (r, w')" by (cases "scan paths '''' w")
  have r: "r = (case filter (\<lambda>p. stat_of w p = None) paths of [] \<Rightarrow> '''' | q # qs \<Rightarrow> last (q # qs))"
    using scan_path [of paths "''''" w] sc by simp
  show ?thesis using True sc r
    by (simp add: FindConfig_def split: list.splits)
next
  case False
  then show ?thesis
    by (simp add: FindConfig_def os_Stat_def split: option.splits)
qed

lemma FindConfig_ok_nonempty: "fst (FindConfig path paths w) = (p, None) \<Longrightarrow> p \<noteq> ''''"
  by (auto simp: FindConfig_result split: if_splits list.splits option.splits)

lemma last_filter_nth:
  assumes "j < length xs" and "P (xs ! j)" and "\<forall>k. j < k \<and> k < length xs \<longrightarrow> \<not> P (xs ! k)"
  shows "filter P xs \<noteq> [] \<and> last (filter P xs) = xs ! j"
proof -
  have split: "xs = take j xs @ xs ! j # drop (Suc j) xs"
    using assms(1) by (rule id_take_nth_drop)
  have "\<forall>x \<in> set (drop (Suc j) xs). \<not> P x"
  proof
    fix x assume "x \<in> set (drop (Suc j) xs)"
    then obtain i where i: "i < length (drop (Suc j) xs)" "x = drop (Suc j) xs ! i"
      by (auto simp: in_set_conv_nth)
    then have "x = xs ! (Suc j + i)" and "Suc j + i < length xs" by auto
    with assms(3) show "\<not> P x" by auto
  qed
  then have tl: "filter P (drop (Suc j) xs) = []" by (simp add: filter_empty_conv)
  have "filter P xs = filter P (take j xs) @ filter P (xs ! j # drop (Suc j) xs)"
    by (subst split) (simp only: filter_append)
  also have "\<dots> = filter P (take j xs) @ [xs ! j]"
    using assms(2) tl by simp
  finally show ?thesis by simp
qed

section \<open>What the loaders compute\<close>

lemma FindConfig_keeps_files:
  "file_of (snd (FindConfig path paths w)) = file_of w"
  "stat_of (snd (FindConfig path paths w)) = stat_of w"
  by (simp_all add: FindConfig_world)

lemma findConfig_keeps_files:
  assumes "findConfig path paths w = (r, w1)"
  shows "file_of w1 = file_of w" and "stat_of w1 = stat_of w"
proof -
  have "w1 = snd (FindConfig path paths w)"
    using assms by (simp add: findConfig_eq)
  then show "file_of w1 = file_of w" and "stat_of w1 = stat_of w"
    by (simp_all add: FindConfig_world)
qed

lemma ReadFoundConfig_read_ok:
  assumes "file_of w path = Inr content"
  shows "ReadFoundConfig path c unmarshal validate w =
     (case unmarshal content c of
        (Some err, c') \<Rightarrow>
          (Some (fmt_Errorf ''unable to unmarshal configuration file '' path err), c',
           w\<lparr>trace := trace w @ [EvReadFile path, EvUnmarshal]\<rparr>)
      | (None, c') \<Rightarrow>
          (validate c', c', w\<lparr>trace := trace w @ [EvReadFile path, EvUnmarshal, EvValidate]\<rparr>))"
  using assms
  by (simp add: ReadFoundConfig_def os_ReadFile_def call_unmarshal_def call_validate_def
      record_event_def split: prod.splits option.splits)

lemma ReadConfig_multi_read_ok:
  assumes "findConfig path paths w = ((p, None), w1)" and "file_of w1 p = Inr content"
  shows "ReadConfig_multi path paths c unmarshal validator w =
     (case unmarshal content c of
        (Some err, c') \<Rightarrow>
          (('''', [fmt_Errorf ''unable to unmarshal configuration file '' p err]), c',
           w1\<lparr>trace := trace w1 @ [EvReadFile p, EvUnmarshal]\<rparr>)
      | (None, c') \<Rightarrow>
          ((p, validator c'), c', w1\<lparr>trace := trace w1 @ [EvReadFile p, EvUnmarshal, EvValidate]\<rparr>))"
  using assms
  by (simp add: ReadConfig_multi_def os_ReadFile_def call_unmarshal_def call_validate_def
      record_event_def split: prod.splits option.splits)

lemma ReadConfig_multi_read_failed:
  assumes "fst (findConfig path paths w) = (p, None)" and "file_of w p = Inl e"
  shows "fst (ReadConfig_multi path paths c unmarshal validator w) =
           ('''', [fmt_Errorf ''unable to read configuration file '' p e])"
proof -
  obtain w1 where f: "findConfig path paths w = ((p, None), w1)"
    using assms(1) by (cases "findConfig path paths w") auto
  have "file_of w1 p = Inl e"
    using findConfig_keeps_files(1) [OF f] assms(2) by simp
  with f show ?thesis
    by (simp add: ReadConfig_multi_def os_ReadFile_def)
qed

lemma ReadConfig_find_failed:
  assumes "snd (fst (FindConfig path paths w)) = Some e"
  shows "fst (ReadConfig path paths c unmarshal validate w) = ('''', Some e)"
    and "fst (ReadConfig_multi path paths c unmarshal validator w) = ('''', [e])"
  using assms
  by (auto simp: ReadConfig_def ReadConfig_multi_def findConfig_eq split: prod.splits option.splits)

lemma ReadConfig_find_ok:
  assumes "fst (FindConfig path paths w) = (p, None)"
  shows "fst (ReadConfig path paths c unmarshal validate w) =
           (p, fst (ReadFoundConfig p c unmarshal validate (snd (FindConfig path paths w))))"
  using assms
  by (auto simp: ReadConfig_def split: prod.splits option.splits)

section \<open>Evaluating the example environment\<close>

lemma demo_stat:
  "stat_of demo_fs p =
     (if p \<in> {''/a.yml'', ''/b.yml'', ''/etc/app.yml'', ''/etc/empty.yml'', ''/etc/secret.yml''}
      then None else Some ENOENT)"
  by (simp add: demo_fs_def fs_of_def)

lemma demo_trace: "trace demo_fs = []"
  by (simp add: demo_fs_def fs_of_def)

section \<open>Path resolution: the claims\<close>

text \<open>
  C1, as stated: with an empty explicit path, whenever the fallback entries at indices
  \<open>i < j\<close> both stat, the resolver returns the entry at index \<open>j\<close>. This fails when a
  later entry stats too: with three candidates that all stat, \<open>i = 0\<close> and \<open>j = 1\<close>, the
  resolver returns the third candidate, not the second.
\<close>

theorem later_statable_candidate_counterexample:
  "(0::nat) < 1 \<and> (1::nat) < length [''/a.yml'', ''/b.yml'', ''/etc/app.yml'']
   \<and> stat_of demo_fs ([''/a.yml'', ''/b.yml'', ''/etc/app.yml''] ! 0) = None
   \<and> stat_of demo_fs ([''/a.yml'', ''/b.yml'', ''/etc/app.yml''] ! 1) = None
   \<and> fst (FindConfig '''' [''/a.yml'', ''/b.yml'', ''/etc/app.yml''] demo_fs)
        \<noteq> ([''/a.yml'', ''/b.yml'', ''/etc/app.yml''] ! 1, None)
   \<and> fst (FindConfig '''' [''/a.yml'', ''/b.yml'', ''/etc/app.yml''] demo_fs)
        = (''/etc/app.yml'', None)"
  by (simp add: FindConfig_def os_Stat_def demo_fs_def fs_of_def record_event_def)

text \<open>
  C1, amended: with an empty explicit path, if the entry at index \<open>j\<close> stats, is not the
  empty string, and no entry after index \<open>j\<close> stats, then both resolvers return the entry
  at index \<open>j\<close>, whatever stats before it; the scan stats every candidate of the list, in
  order, so it does not stop at the first candidate that stats.
\<close>

theorem last_statable_candidate_wins:
  assumes "j < length paths" and "stat_of w (paths ! j) = None" and "paths ! j \<noteq> ''''"
    and "\<forall>k. j < k \<and> k < length paths \<longrightarrow> stat_of w (paths ! k) \<noteq> None"
  shows "fst (FindConfig '''' paths w) = (paths ! j, None)
       \<and> fst (findConfig '''' paths w) = (paths ! j, None)
       \<and> trace (snd (FindConfig '''' paths w)) = trace w @ map EvStat paths
       \<and> trace (snd (findConfig '''' paths w)) = trace w @ map EvStat paths"
proof -
  have "filter (\<lambda>p. stat_of w p = None) paths \<noteq> []
      \<and> last (filter (\<lambda>p. stat_of w p = None) paths) = paths ! j"
    using assms(1,2,4) by (intro last_filter_nth) auto
  then have "fst (FindConfig '''' paths w) = (paths ! j, None)"
    using assms(3) by (auto simp: FindConfig_result split: list.splits)
  then show ?thesis
    by (simp add: findConfig_eq FindConfig_world)
qed

theorem last_statable_candidate_wins_witness:
  "(2::nat) < length [''/a.yml'', ''/missing.yml'', ''/b.yml'', ''/gone.yml'']
   \<and> stat_of demo_fs ([''/a.yml'', ''/missing.yml'', ''/b.yml'', ''/gone.yml''] ! 0) = None
   \<and> stat_of demo_fs ([''/a.yml'', ''/missing.yml'', ''/b.yml'', ''/gone.yml''] ! 2) = None
   \<and> [''/a.yml'', ''/missing.yml'', ''/b.yml'', ''/gone.yml''] ! 2 \<noteq> ''''
   \<and> stat_of demo_fs ([''/a.yml'', ''/missing.yml'', ''/b.yml'', ''/gone.yml''] ! 3) \<noteq> None
   \<and> fst (FindConfig '''' [''/a.yml'', ''/missing.yml'', ''/b.yml'', ''/gone.yml''] demo_fs)
        = (''/b.yml'', None)
   \<and> trace (snd (findConfig '''' [''/a.yml'', ''/missing.yml'', ''/b.yml'', ''/gone.yml''] demo_fs))
        = [EvStat ''/a.yml'', EvStat ''/missing.yml'', EvStat ''/b.yml'', EvStat ''/gone.yml'']"
proof -
  let ?paths = "[''/a.yml'', ''/missing.yml'', ''/b.yml'', ''/gone.yml'']"
  have later: "\<forall>k. 2 < k \<and> k < length ?paths \<longrightarrow> stat_of demo_fs (?paths ! k) \<noteq> None"
  proof (intro allI impI)
    fix k :: nat
    assume "2 < k \<and> k < length ?paths"
    then have "k = 3" by simp
    then show "stat_of demo_fs (?paths ! k) \<noteq> None"
      by (simp add: demo_stat)
  qed
  show ?thesis
    using last_statable_candidate_wins [of 2 ?paths demo_fs] later
    by (simp add: demo_stat demo_trace)
qed

text \<open>
  C2: a non-empty explicit path that stats is returned unchanged by both resolvers, for
  every fallback list; the only call made is the one \<^verbatim>\<open>os.Stat\<close> of the explicit path, so
  no fallback candidate is looked at.
\<close>

theorem explicit_path_returned:
  assumes "path \<noteq> ''''" and "stat_of w path = None"
  shows "FindConfig path paths w = ((path, None), w\<lparr>trace := trace w @ [EvStat path]\<rparr>)
       \<and> findConfig path paths w = ((path, None), w\<lparr>trace := trace w @ [EvStat path]\<rparr>)"
  using assms by (simp add: FindConfig_def findConfig_def os_Stat_def record_event_def)

theorem explicit_path_returned_witness:
  "''/etc/app.yml'' \<noteq> '''' \<and> stat_of demo_fs ''/etc/app.yml'' = None
   \<and> fst (FindConfig ''/etc/app.yml'' [''/a.yml'', ''/b.yml''] demo_fs) = (''/etc/app.yml'', None)
   \<and> trace (snd (findConfig ''/etc/app.yml'' [''/a.yml'', ''/b.yml''] demo_fs))
        = [EvStat ''/etc/app.yml'']"
  using explicit_path_returned [of "''/etc/app.yml''" demo_fs "[''/a.yml'', ''/b.yml'']"]
  by (simp add: demo_stat demo_trace)

text \<open>
  C3: a non-empty explicit path whose stat fails with \<open>err\<close> makes both resolvers return the
  empty path and an error that wraps \<open>err\<close> and whose message contains the path; the only
  call made is the \<^verbatim>\<open>os.Stat\<close> of the explicit path, for every fallback list. Both
  \<^verbatim>\<open>ReadConfig\<close> functions return that error, leave the target as it was and make no other
  call: no file is read.
\<close>

theorem explicit_path_inaccessible:
  assumes "path \<noteq> ''''" and "stat_of w path = Some err"
  shows "FindConfig path paths w =
           (('''', Some (WrapError (''could not stat configuration file '' @ path @ '': '' @ Error err) err)),
            w\<lparr>trace := trace w @ [EvStat path]\<rparr>)
       \<and> findConfig path paths w = FindConfig path paths w
       \<and> ReadConfig path paths c unmarshal validate w =
           (('''', Some (WrapError (''could not stat configuration file '' @ path @ '': '' @ Error err) err)),
            c, w\<lparr>trace := trace w @ [EvStat path]\<rparr>)
       \<and> ReadConfig_multi path paths c unmarshal validator w =
           (('''', [WrapError (''could not stat configuration file '' @ path @ '': '' @ Error err) err]),
            c, w\<lparr>trace := trace w @ [EvStat path]\<rparr>)"
  using assms
  by (simp add: ReadConfig_def ReadConfig_multi_def FindConfig_def findConfig_def os_Stat_def
      record_event_def fmt_Errorf_def)

theorem explicit_path_inaccessible_witness:
  "''/bad/path.yml'' \<noteq> '''' \<and> stat_of demo_fs ''/bad/path.yml'' = Some ENOENT
   \<and> fst (ReadConfig ''/bad/path.yml'' [''/etc/app.yml''] 0 demo_unmarshal demo_validate demo_fs)
      = ('''', Some (WrapError
           ''could not stat configuration file /bad/path.yml: no such file or directory'' ENOENT))
   \<and> trace (snd (snd (ReadConfig ''/bad/path.yml'' [''/etc/app.yml''] 0 demo_unmarshal
        demo_validate demo_fs))) = [EvStat ''/bad/path.yml'']
   \<and> trace (snd (FindConfig ''/bad/path.yml'' [''/etc/app.yml''] demo_fs)) = [EvStat ''/bad/path.yml'']"
  using explicit_path_inaccessible [of "''/bad/path.yml''" demo_fs ENOENT
      "[''/etc/app.yml'']" 0 demo_unmarshal demo_validate]
  by (simp add: demo_stat demo_trace ENOENT_def)

text \<open>
  C4: with an empty explicit path and a fallback list none of whose entries stats (the
  empty list included), both resolvers return the empty path and the error made by
  \<^verbatim>\<open>errors.New\<close>, a fixed message that contains no path and wraps nothing; every candidate
  was stat'ed and none of the stat errors appears in the result.
\<close>

theorem no_statable_candidate:
  assumes "\<forall>p \<in> set paths. stat_of w p \<noteq> None"
  shows "FindConfig '''' paths w =
           (('''', Some (ErrorString ''could not locate configuration file'')),
            w\<lparr>trace := trace w @ map EvStat paths\<rparr>)
       \<and> findConfig '''' paths w = FindConfig '''' paths w
       \<and> Unwrap (ErrorString ''could not locate configuration file'') = None"
proof -
  have "filter (\<lambda>p. stat_of w p = None) paths = []"
    using assms by (simp add: filter_empty_conv)
  then have "fst (FindConfig '''' paths w) = ('''', Some (ErrorString ''could not locate configuration file''))"
    by (simp add: FindConfig_result errors_New_def)
  moreover have "snd (FindConfig '''' paths w) = w\<lparr>trace := trace w @ map EvStat paths\<rparr>"
    by (simp add: FindConfig_world)
  ultimately show ?thesis
    by (simp add: prod_eq_iff findConfig_eq)
qed

theorem no_statable_candidate_witness:
  "stat_of demo_fs ''/missing/a.yml'' \<noteq> None \<and> stat_of demo_fs ''/missing/b.yml'' \<noteq> None
   \<and> fst (FindConfig '''' [''/missing/a.yml'', ''/missing/b.yml''] demo_fs)
        = ('''', Some (ErrorString ''could not locate configuration file''))
   \<and> trace (snd (FindConfig '''' [''/missing/a.yml'', ''/missing/b.yml''] demo_fs))
        = [EvStat ''/missing/a.yml'', EvStat ''/missing/b.yml'']
   \<and> fst (findConfig '''' [] demo_fs)
        = ('''', Some (ErrorString ''could not locate configuration file''))"
  using no_statable_candidate [of "[''/missing/a.yml'', ''/missing/b.yml'']" demo_fs]
    no_statable_candidate [of "[]" demo_fs]
  by (simp add: demo_stat demo_trace)

text \<open>
  C8: the result of either resolver depends on the environment only through the stat
  outcomes: two environments with the same stat outcomes (whatever their file contents and
  earlier calls) give the same result. A call leaves the stat outcomes and the file contents
  as they were, and a second call made after the first returns what the first returned.
\<close>

theorem resolver_idempotent:
  assumes "stat_of w1 = stat_of w2"
  shows "fst (FindConfig path paths w1) = fst (FindConfig path paths w2)
       \<and> fst (findConfig path paths w1) = fst (findConfig path paths w2)
       \<and> fst (FindConfig path paths (snd (FindConfig path paths w1))) = fst (FindConfig path paths w1)
       \<and> fst (findConfig path paths (snd (findConfig path paths w1))) = fst (findConfig path paths w1)
       \<and> stat_of (snd (FindConfig path paths w1)) = stat_of w1
       \<and> file_of (snd (FindConfig path paths w1)) = file_of w1
       \<and> stat_of (snd (findConfig path paths w1)) = stat_of w1
       \<and> file_of (snd (findConfig path paths w1)) = file_of w1"
proof -
  have same: "fst (FindConfig path paths w1) = fst (FindConfig path paths w2)"
    by (simp only: FindConfig_result assms)
  have keep: "stat_of (snd (FindConfig path paths w1)) = stat_of w1"
    "file_of (snd (FindConfig path paths w1)) = file_of w1"
    by (simp_all add: FindConfig_world)
  have again: "fst (FindConfig path paths (snd (FindConfig path paths w1))) = fst (FindConfig path paths w1)"
    by (simp only: FindConfig_result keep)
  show ?thesis
    using same keep again by (simp add: findConfig_eq)
qed

theorem resolver_idempotent_witness:
  "stat_of demo_fs = stat_of (demo_fs\<lparr>file_of := (\<lambda>p. Inl EACCES), trace := [EvReadFile ''/a.yml'']\<rparr>)
   \<and> fst (FindConfig '''' [''/a.yml'', ''/b.yml'']
           (demo_fs\<lparr>file_of := (\<lambda>p. Inl EACCES), trace := [EvReadFile ''/a.yml'']\<rparr>))
       = (''/b.yml'', None)
   \<and> fst (FindConfig '''' [''/a.yml'', ''/b.yml'']
            (snd (FindConfig '''' [''/a.yml'', ''/b.yml''] demo_fs)))
       = (''/b.yml'', None)"
proof -
  let ?w2 = "demo_fs\<lparr>file_of := (\<lambda>p. Inl EACCES), trace := [EvReadFile ''/a.yml'']\<rparr>"
  have h: "stat_of demo_fs = stat_of ?w2"
    by simp
  have r: "fst (FindConfig '''' [''/a.yml'', ''/b.yml''] demo_fs) = (''/b.yml'', None)"
    by (simp add: FindConfig_def os_Stat_def demo_stat)
  note idem = resolver_idempotent [OF h, of "''''" "[''/a.yml'', ''/b.yml'']"]
  from idem have "fst (FindConfig '''' [''/a.yml'', ''/b.yml''] ?w2) = (''/b.yml'', None)"
    by (simp only: r)
  moreover from idem
  have "fst (FindConfig '''' [''/a.yml'', ''/b.yml''] (snd (FindConfig '''' [''/a.yml'', ''/b.yml''] demo_fs)))
      = (''/b.yml'', None)"
    by (simp only: r)
  ultimately show ?thesis
    using h by blast
qed

text \<open>
  C9: a path that either resolver returns without an error is the explicit path, when that
  is non-empty, and otherwise an element of the fallback list.
\<close>

theorem resolved_path_is_given:
  assumes "fst (FindConfig path paths w) = (r, None) \<or> fst (findConfig path paths w) = (r, None)"
  shows "(path \<noteq> '''' \<and> r = path) \<or> (path = '''' \<and> r \<in> set paths)"
proof -
  from assms have ok: "fst (FindConfig path paths w) = (r, None)"
    by (simp add: findConfig_eq)
  show ?thesis
  proof (cases "path = ''''")
    case True
    let ?f = "filter (\<lambda>p. stat_of w p = None) paths"
    from ok True have "?f \<noteq> [] \<and> r = last ?f"
      by (auto simp: FindConfig_result split: list.splits if_splits)
    then have "r \<in> set ?f" using last_in_set [of ?f] by blast
    then have "r \<in> set paths" by simp
    with True show ?thesis by simp
  next
    case False
    with ok show ?thesis
      by (auto simp: FindConfig_result split: option.splits)
  qed
qed

theorem resolved_path_is_given_witness:
  "fst (FindConfig '''' [''/missing.yml'', ''/b.yml''] demo_fs) = (''/b.yml'', None)
   \<and> ''/b.yml'' \<in> set [''/missing.yml'', ''/b.yml'']
   \<and> fst (findConfig ''/a.yml'' [''/missing.yml'', ''/b.yml''] demo_fs) = (''/a.yml'', None)"
proof -
  have r: "fst (FindConfig '''' [''/missing.yml'', ''/b.yml''] demo_fs) = (''/b.yml'', None)"
    by (simp add: FindConfig_def os_Stat_def demo_stat)
  have s: "fst (findConfig ''/a.yml'' [''/missing.yml'', ''/b.yml''] demo_fs) = (''/a.yml'', None)"
    by (simp add: findConfig_def os_Stat_def demo_stat)
  from resolved_path_is_given [of "''''" "[''/missing.yml'', ''/b.yml'']" demo_fs "''/b.yml''"]
    resolved_path_is_given [of "''/a.yml''" "[''/missing.yml'', ''/b.yml'']" demo_fs "''/a.yml''"] r s
  show ?thesis by simp
qed

section \<open>Loading: the claims\<close>

text \<open>
  C5: when the file at the path is read and the unmarshal function fails with \<open>err\<close>,
  \<^verbatim>\<open>ReadFoundConfig\<close> returns an error that wraps \<open>err\<close> and whose message contains the
  path, the target is as the unmarshal function left it, and the calls made are the read
  and the unmarshal: the validate function is not called. The \<^verbatim>\<open>ReadConfig\<close> of the
  multi-error variant, once its resolver has returned that path, returns the empty path
  and that one error, and does not call the validator either.
\<close>

theorem unmarshal_failure:
  assumes "file_of w path = Inr content" and "unmarshal content c = (Some err, c')"
  shows "ReadFoundConfig path c unmarshal validate w =
           (Some (WrapError (''unable to unmarshal configuration file '' @ path @ '': '' @ Error err) err),
            c', w\<lparr>trace := trace w @ [EvReadFile path, EvUnmarshal]\<rparr>)
       \<and> (fst (findConfig path0 paths w) = (path, None) \<longrightarrow>
            ReadConfig_multi path0 paths c unmarshal validator w =
              (('''', [WrapError (''unable to unmarshal configuration file '' @ path @ '': '' @ Error err) err]),
               c', (snd (findConfig path0 paths w))
                 \<lparr>trace := trace (snd (findConfig path0 paths w)) @ [EvReadFile path, EvUnmarshal]\<rparr>))"
proof (intro conjI impI)
  show "ReadFoundConfig path c unmarshal validate w =
      (Some (WrapError (''unable to unmarshal configuration file '' @ path @ '': '' @ Error err) err),
       c', w\<lparr>trace := trace w @ [EvReadFile path, EvUnmarshal]\<rparr>)"
    using assms by (simp add: ReadFoundConfig_read_ok fmt_Errorf_def)
next
  assume "fst (findConfig path0 paths w) = (path, None)"
  then have f: "findConfig path0 paths w = ((path, None), snd (findConfig path0 paths w))"
    by (simp add: prod_eq_iff)
  have "file_of (snd (findConfig path0 paths w)) path = Inr content"
    using findConfig_keeps_files(1) [OF f] assms(1) by simp
  with assms(2) show "ReadConfig_multi path0 paths c unmarshal validator w =
      (('''', [WrapError (''unable to unmarshal configuration file '' @ path @ '': '' @ Error err) err]),
       c', (snd (findConfig path0 paths w))
         \<lparr>trace := trace (snd (findConfig path0 paths w)) @ [EvReadFile path, EvUnmarshal]\<rparr>)"
    by (simp add: ReadConfig_multi_read_ok [OF f] fmt_Errorf_def)
qed

theorem unmarshal_failure_witness:
  "file_of demo_fs ''/etc/empty.yml'' = Inr []
   \<and> demo_unmarshal [] 7 = (Some (ErrorString ''unexpected end of input''), 7)
   \<and> fst (findConfig '''' [''/etc/empty.yml''] demo_fs) = (''/etc/empty.yml'', None)
   \<and> fst (ReadFoundConfig ''/etc/empty.yml'' 7 demo_unmarshal demo_validate demo_fs)
       = Some (WrapError ''unable to unmarshal configuration file /etc/empty.yml: unexpected end of input''
                (ErrorString ''unexpected end of input''))
   \<and> trace (snd (snd (ReadFoundConfig ''/etc/empty.yml'' 7 demo_unmarshal demo_validate demo_fs)))
       = [EvReadFile ''/etc/empty.yml'', EvUnmarshal]
   \<and> fst (ReadConfig_multi '''' [''/etc/empty.yml''] 7 demo_unmarshal demo_validator demo_fs)
       = ('''', [WrapError ''unable to unmarshal configuration file /etc/empty.yml: unexpected end of input''
                (ErrorString ''unexpected end of input'')])
   \<and> trace (snd (snd (ReadConfig_multi '''' [''/etc/empty.yml''] 7 demo_unmarshal demo_validator demo_fs)))
       = [EvStat ''/etc/empty.yml'', EvReadFile ''/etc/empty.yml'', EvUnmarshal]"
proof -
  have h1: "file_of demo_fs ''/etc/empty.yml'' = Inr []"
    by (simp add: demo_fs_def fs_of_def)
  have h2: "demo_unmarshal [] 7 = (Some (ErrorString ''unexpected end of input''), 7)"
    by (simp add: demo_unmarshal_def)
  have h3: "findConfig '''' [''/etc/empty.yml''] demo_fs
      = ((''/etc/empty.yml'', None), demo_fs\<lparr>trace := [EvStat ''/etc/empty.yml'']\<rparr>)"
    by (simp add: findConfig_def os_Stat_def demo_stat record_event_def demo_trace)
  show ?thesis
    using unmarshal_failure [where w = demo_fs and path = "''/etc/empty.yml''"
        and content = "[]" and unmarshal = demo_unmarshal and c = 7 and c' = 7
        and err = "ErrorString ''unexpected end of input''" and validate = demo_validate
        and ?path0.0 = "[]" and paths = "[''/etc/empty.yml'']" and validator = demo_validator]
      h1 h2 h3
    by (simp add: demo_trace)
qed

text \<open>
  C6: when the file at the path is read, the unmarshal function succeeds and leaves the
  target as \<open>c'\<close>, and the single-error validator accepts \<open>c'\<close>, \<^verbatim>\<open>ReadFoundConfig\<close>
  returns no error and the target is exactly \<open>c'\<close>; the calls made are the read, the
  unmarshal and the validation, in that order.
\<close>

theorem read_found_config_success:
  assumes "file_of w path = Inr content" and "unmarshal content c = (None, c')"
    and "validate c' = None"
  shows "ReadFoundConfig path c unmarshal validate w =
           (None, c', w\<lparr>trace := trace w @ [EvReadFile path, EvUnmarshal, EvValidate]\<rparr>)"
  using assms by (simp add: ReadFoundConfig_read_ok)

theorem read_found_config_success_witness:
  "file_of demo_fs ''/b.yml'' = Inr [1, 2]
   \<and> demo_unmarshal [1, 2] 0 = (None, 2) \<and> demo_validate 2 = None
   \<and> fst (ReadFoundConfig ''/b.yml'' 0 demo_unmarshal demo_validate demo_fs) = None
   \<and> fst (snd (ReadFoundConfig ''/b.yml'' 0 demo_unmarshal demo_validate demo_fs)) = 2"
proof -
  have h1: "file_of demo_fs ''/b.yml'' = Inr [1, 2]"
    by (simp add: demo_fs_def fs_of_def)
  have h2: "demo_unmarshal [1, 2] 0 = (None, 2)"
    by (simp add: demo_unmarshal_def)
  have h3: "demo_validate 2 = None"
    by (simp add: demo_validate_def)
  show ?thesis
    using read_found_config_success [where w = demo_fs and path = "''/b.yml''"
        and content = "[1, 2]" and unmarshal = demo_unmarshal and c = 0 and c' = 2
        and validate = demo_validate] h1 h2 h3
    by simp
qed

text \<open>
  C7: in the multi-error variant, when the resolver returns a path, the file is read and
  the unmarshal function succeeds leaving the target as \<open>c'\<close>, \<^verbatim>\<open>ReadConfig\<close> returns
  that path together with the very list the validator returns for \<open>c'\<close>: the same errors
  in the same order, the empty list when there is none.
\<close>

theorem validator_errors_returned_as_is:
  assumes "fst (findConfig path paths w) = (p, None)" and "file_of w p = Inr content"
    and "unmarshal content c = (None, c')"
  shows "fst (ReadConfig_multi path paths c unmarshal validator w) = (p, validator c')
       \<and> fst (snd (ReadConfig_multi path paths c unmarshal validator w)) = c'"
proof -
  have f: "findConfig path paths w = ((p, None), snd (findConfig path paths w))"
    using assms(1) by (simp add: prod_eq_iff)
  have "file_of (snd (findConfig path paths w)) p = Inr content"
    using findConfig_keeps_files(1) [OF f] assms(2) by simp
  with assms(3) show ?thesis
    by (simp add: ReadConfig_multi_read_ok [OF f])
qed

theorem validator_errors_returned_as_is_witness:
  "fst (findConfig '''' [''/missing/a.yml'', ''/etc/app.yml''] demo_fs) = (''/etc/app.yml'', None)
   \<and> file_of demo_fs ''/etc/app.yml'' = Inr [1, 2, 3]
   \<and> demo_unmarshal [1, 2, 3] 0 = (None, 3)
   \<and> demo_validator 3 = [ErrorString ''too long'', ErrorString ''not short'']
   \<and> fst (ReadConfig_multi '''' [''/missing/a.yml'', ''/etc/app.yml''] 0 demo_unmarshal
        demo_validator demo_fs)
      = (''/etc/app.yml'', [ErrorString ''too long'', ErrorString ''not short''])
   \<and> fst (ReadConfig_multi ''/b.yml'' [] 0 demo_unmarshal demo_validator demo_fs) = (''/b.yml'', [])"
proof -
  have h0: "fst (findConfig '''' [''/missing/a.yml'', ''/etc/app.yml''] demo_fs) = (''/etc/app.yml'', None)"
    by (simp add: findConfig_def os_Stat_def demo_stat)
  have h1: "file_of demo_fs ''/etc/app.yml'' = Inr [1, 2, 3]"
    by (simp add: demo_fs_def fs_of_def)
  have h2: "demo_unmarshal [1, 2, 3] 0 = (None, 3)"
    by (simp add: demo_unmarshal_def)
  have h3: "demo_validator 3 = [ErrorString ''too long'', ErrorString ''not short'']"
    by (simp add: demo_validator_def)
  have k0: "fst (findConfig ''/b.yml'' [] demo_fs) = (''/b.yml'', None)"
    by (simp add: findConfig_def os_Stat_def demo_stat)
  have k1: "file_of demo_fs ''/b.yml'' = Inr [1, 2]"
    by (simp add: demo_fs_def fs_of_def)
  have k2: "demo_unmarshal [1, 2] 0 = (None, 2)"
    by (simp add: demo_unmarshal_def)
  have k3: "demo_validator 2 = []"
    by (simp add: demo_validator_def)
  show ?thesis
    using validator_errors_returned_as_is [where path = "[]"
        and paths = "[''/missing/a.yml'', ''/etc/app.yml'']" and w = demo_fs
        and p = "''/etc/app.yml''" and content = "[1, 2, 3]" and unmarshal = demo_unmarshal
        and c = 0 and c' = 3 and validator = demo_validator]
      validator_errors_returned_as_is [where path = "''/b.yml''" and paths = "[]" and w = demo_fs
        and p = "''/b.yml''" and content = "[1, 2]" and unmarshal = demo_unmarshal
        and c = 0 and c' = 2 and validator = demo_validator]
      h0 h1 h2 h3 k0 k1 k2 k3
    by simp
qed

text \<open>
  C10: which path \<^verbatim>\<open>ReadConfig\<close> returns beside an error. When the resolver fails, both
  variants return the empty path. When the resolver returns \<open>p\<close>, then \<open>p\<close> is not empty
  and the single-error variant returns \<open>p\<close> whatever the later stages do; the multi-error
  variant returns the empty path when the read or the unmarshal fails. When read and
  unmarshal succeed, both variants return \<open>p\<close> together with what the validator
  returns, so a validation failure comes with the resolved path.
\<close>

theorem path_returned_beside_error:
  "(snd (fst (FindConfig path paths w)) = Some e \<longrightarrow>
      fst (fst (ReadConfig path paths c unmarshal validate w)) = ''''
      \<and> fst (fst (ReadConfig_multi path paths c unmarshal validator w)) = '''')
   \<and> (fst (FindConfig path paths w) = (p, None) \<longrightarrow>
        p \<noteq> ''''
        \<and> fst (fst (ReadConfig path paths c unmarshal validate w)) = p
        \<and> (file_of w p = Inl e1 \<longrightarrow>
             fst (fst (ReadConfig_multi path paths c unmarshal validator w)) = '''')
        \<and> (file_of w p = Inr content \<and> unmarshal content c = (Some e2, c') \<longrightarrow>
             fst (fst (ReadConfig_multi path paths c unmarshal validator w)) = '''')
        \<and> (file_of w p = Inr content \<and> unmarshal content c = (None, c') \<longrightarrow>
             fst (ReadConfig path paths c unmarshal validate w) = (p, validate c')
             \<and> fst (ReadConfig_multi path paths c unmarshal validator w) = (p, validator c')))"
proof -
  have failed: "fst (fst (ReadConfig path paths c unmarshal validate w)) = ''''
      \<and> fst (fst (ReadConfig_multi path paths c unmarshal validator w)) = ''''"
    if "snd (fst (FindConfig path paths w)) = Some e"
    using that by (simp add: ReadConfig_find_failed)
  have found: "p \<noteq> ''''
      \<and> fst (fst (ReadConfig path paths c unmarshal validate w)) = p
      \<and> (file_of w p = Inl e1 \<longrightarrow>
           fst (fst (ReadConfig_multi path paths c unmarshal validator w)) = '''')
      \<and> (file_of w p = Inr content \<and> unmarshal content c = (Some e2, c') \<longrightarrow>
           fst (fst (ReadConfig_multi path paths c unmarshal validator w)) = '''')
      \<and> (file_of w p = Inr content \<and> unmarshal content c = (None, c') \<longrightarrow>
           fst (ReadConfig path paths c unmarshal validate w) = (p, validate c')
           \<and> fst (ReadConfig_multi path paths c unmarshal validator w) = (p, validator c'))"
    if ok: "fst (FindConfig path paths w) = (p, None)"
  proof -
    let ?w1 = "snd (FindConfig path paths w)"
    have f: "findConfig path paths w = ((p, None), ?w1)"
      using ok by (simp add: findConfig_eq prod_eq_iff)
    have files: "file_of ?w1 = file_of w"
      by (rule FindConfig_keeps_files(1))
    have nonempty: "p \<noteq> ''''"
      using ok by (rule FindConfig_ok_nonempty)
    have single: "fst (fst (ReadConfig path paths c unmarshal validate w)) = p"
      using ok by (simp add: ReadConfig_find_ok)
    have read_failed: "fst (fst (ReadConfig_multi path paths c unmarshal validator w)) = ''''"
      if "file_of w p = Inl e1"
      using that f by (simp add: ReadConfig_multi_read_failed)
    have unmarshal_failed: "fst (fst (ReadConfig_multi path paths c unmarshal validator w)) = ''''"
      if "file_of w p = Inr content \<and> unmarshal content c = (Some e2, c')"
      using that files by (simp add: ReadConfig_multi_read_ok [OF f])
    have validated: "fst (ReadConfig path paths c unmarshal validate w) = (p, validate c')
        \<and> fst (ReadConfig_multi path paths c unmarshal validator w) = (p, validator c')"
      if "file_of w p = Inr content \<and> unmarshal content c = (None, c')"
      using that files ok
      by (simp add: ReadConfig_multi_read_ok [OF f] ReadConfig_find_ok ReadFoundConfig_read_ok)
    from nonempty single read_failed unmarshal_failed validated show ?thesis
      by blast
  qed
  from failed found show ?thesis
    by blast
qed

theorem path_returned_beside_error_witness:
  "fst (FindConfig '''' [''/missing/a.yml'', ''/etc/app.yml''] demo_fs) = (''/etc/app.yml'', None)
   \<and> file_of demo_fs ''/etc/app.yml'' = Inr [1, 2, 3]
   \<and> demo_unmarshal [1, 2, 3] 0 = (None, 3)
   \<and> fst (ReadConfig '''' [''/missing/a.yml'', ''/etc/app.yml''] 0 demo_unmarshal demo_validate demo_fs)
       = (''/etc/app.yml'', Some (ErrorString ''too long''))
   \<and> fst (ReadConfig_multi '''' [''/missing/a.yml'', ''/etc/app.yml''] 0 demo_unmarshal
         demo_validator demo_fs)
       = (''/etc/app.yml'', [ErrorString ''too long'', ErrorString ''not short''])
   \<and> snd (fst (FindConfig ''/bad/path.yml'' [''/etc/app.yml''] demo_fs))
       = Some (fmt_Errorf ''could not stat configuration file '' ''/bad/path.yml'' ENOENT)
   \<and> fst (fst (ReadConfig ''/bad/path.yml'' [''/etc/app.yml''] 0 demo_unmarshal demo_validate demo_fs))
       = ''''
   \<and> fst (fst (ReadConfig_multi ''/bad/path.yml'' [''/etc/app.yml''] 0 demo_unmarshal
         demo_validator demo_fs)) = ''''
   \<and> fst (FindConfig ''/etc/secret.yml'' [] demo_fs) = (''/etc/secret.yml'', None)
   \<and> file_of demo_fs ''/etc/secret.yml'' = Inl EACCES
   \<and> fst (fst (ReadConfig ''/etc/secret.yml'' [] 0 demo_unmarshal demo_validate demo_fs))
       = ''/etc/secret.yml''
   \<and> fst (fst (ReadConfig_multi ''/etc/secret.yml'' [] 0 demo_unmarshal demo_validator demo_fs)) = ''''
   \<and> fst (FindConfig ''/etc/empty.yml'' [] demo_fs) = (''/etc/empty.yml'', None)
   \<and> file_of demo_fs ''/etc/empty.yml'' = Inr []
   \<and> demo_unmarshal [] 0 = (Some (ErrorString ''unexpected end of input''), 0)
   \<and> fst (fst (ReadConfig ''/etc/empty.yml'' [] 0 demo_unmarshal demo_validate demo_fs))
       = ''/etc/empty.yml''
   \<and> fst (fst (ReadConfig_multi ''/etc/empty.yml'' [] 0 demo_unmarshal demo_validator demo_fs)) = ''''"
proof -
  have a1: "fst (FindConfig '''' [''/missing/a.yml'', ''/etc/app.yml''] demo_fs) = (''/etc/app.yml'', None)"
    by (simp add: FindConfig_def os_Stat_def demo_stat)
  have a2: "file_of demo_fs ''/etc/app.yml'' = Inr [1, 2, 3]"
    by (simp add: demo_fs_def fs_of_def)
  have a3: "demo_unmarshal [1, 2, 3] 0 = (None, 3)"
    by (simp add: demo_unmarshal_def)
  have a4: "demo_validate 3 = Some (ErrorString ''too long'')"
    by (simp add: demo_validate_def)
  have a5: "demo_validator 3 = [ErrorString ''too long'', ErrorString ''not short'']"
    by (simp add: demo_validator_def)
  have b1: "snd (fst (FindConfig ''/bad/path.yml'' [''/etc/app.yml''] demo_fs))
      = Some (fmt_Errorf ''could not stat configuration file '' ''/bad/path.yml'' ENOENT)"
    by (simp add: FindConfig_def os_Stat_def demo_stat)
  have c1: "fst (FindConfig ''/etc/secret.yml'' [] demo_fs) = (''/etc/secret.yml'', None)"
    by (simp add: FindConfig_def os_Stat_def demo_stat)
  have c2: "file_of demo_fs ''/etc/secret.yml'' = Inl EACCES"
    by (simp add: demo_fs_def fs_of_def)
  have d1: "fst (FindConfig ''/etc/empty.yml'' [] demo_fs) = (''/etc/empty.yml'', None)"
    by (simp add: FindConfig_def os_Stat_def demo_stat)
  have d2: "file_of demo_fs ''/etc/empty.yml'' = Inr []"
    by (simp add: demo_fs_def fs_of_def)
  have d3: "demo_unmarshal [] 0 = (Some (ErrorString ''unexpected end of input''), 0)"
    by (simp add: demo_unmarshal_def)
  note validation = path_returned_beside_error [where path = "[]"
      and paths = "[''/missing/a.yml'', ''/etc/app.yml'']" and w = demo_fs and p = "''/etc/app.yml''"
      and content = "[1, 2, 3]" and unmarshal = demo_unmarshal and c = 0 and c' = 3
      and validate = demo_validate and validator = demo_validator]
  note resolution = path_returned_beside_error [where path = "''/bad/path.yml''"
      and paths = "[''/etc/app.yml'']" and w = demo_fs
      and e = "fmt_Errorf ''could not stat configuration file '' ''/bad/path.yml'' ENOENT"
      and unmarshal = demo_unmarshal and c = 0
      and validate = demo_validate and validator = demo_validator]
  note reading = path_returned_beside_error [where path = "''/etc/secret.yml''"
      and paths = "[]" and w = demo_fs and p = "''/etc/secret.yml''" and ?e1.0 = EACCES
      and unmarshal = demo_unmarshal and c = 0
      and validate = demo_validate and validator = demo_validator]
  note unmarshalling = path_returned_beside_error [where path = "''/etc/empty.yml''"
      and paths = "[]" and w = demo_fs and p = "''/etc/empty.yml''" and content = "[]"
      and ?e2.0 = "ErrorString ''unexpected end of input''" and c' = 0
      and unmarshal = demo_unmarshal and c = 0
      and validate = demo_validate and validator = demo_validator]
  have v: "fst (ReadConfig '''' [''/missing/a.yml'', ''/etc/app.yml''] 0 demo_unmarshal demo_validate demo_fs)
        = (''/etc/app.yml'', Some (ErrorString ''too long''))
      \<and> fst (ReadConfig_multi '''' [''/missing/a.yml'', ''/etc/app.yml''] 0 demo_unmarshal
          demo_validator demo_fs)
        = (''/etc/app.yml'', [ErrorString ''too long'', ErrorString ''not short''])"
    using validation a1 a2 a3 by (simp only: a4 a5 simp_thms)
  have r: "fst (fst (ReadConfig ''/bad/path.yml'' [''/etc/app.yml''] 0 demo_unmarshal demo_validate demo_fs))
        = ''''
      \<and> fst (fst (ReadConfig_multi ''/bad/path.yml'' [''/etc/app.yml''] 0 demo_unmarshal
          demo_validator demo_fs)) = ''''"
    using resolution b1 by blast
  have rd: "fst (fst (ReadConfig ''/etc/secret.yml'' [] 0 demo_unmarshal demo_validate demo_fs))
        = ''/etc/secret.yml''
      \<and> fst (fst (ReadConfig_multi ''/etc/secret.yml'' [] 0 demo_unmarshal demo_validator demo_fs)) = ''''"
    using reading c1 c2 by blast
  have um: "fst (fst (ReadConfig ''/etc/empty.yml'' [] 0 demo_unmarshal demo_validate demo_fs))
        = ''/etc/empty.yml''
      \<and> fst (fst (ReadConfig_multi ''/etc/empty.yml'' [] 0 demo_unmarshal demo_validator demo_fs)) = ''''"
    using unmarshalling d1 d2 d3 by blast
  from a1 a2 a3 v b1 r c1 c2 rd d1 d2 d3 um show ?thesis
    by (intro conjI) (erule conjunct1 conjunct2 | assumption)+
qed

end
